theory Spec2Isabelle
  imports Complex_Main
begin

section \<open>The WebSocket bridge service\<close>

text \<open>
  A model of the class \<open>WebSocketService\<close>: its fields, the handlers it installs on the
  socket server and on every accepted socket, and its methods \<open>start\<close>, \<open>stop\<close>,
  \<open>isRunning\<close>, \<open>getPort\<close> and \<open>broadcast\<close>. The HTTP server, the \<open>ws\<close> sockets, the
  console, \<open>JSON\<close> and the editor's command registry are collaborators of the class:
  what the class asks of them is recorded in the state, and what they answer is an
  argument of the model. The static \<open>instance\<close> reference is left out: no method reads
  it.
\<close>

subsection \<open>Values\<close>

text \<open>
  The result of \<open>JSON.parse\<close>. A number is an IEEE double: finite (\<open>Finite 0\<close> stands for
  both zeros) or an infinity, which \<open>JSON.parse\<close> returns for a literal out of range. The
  properties of an object are its own, each key once.
\<close>

datatype number = Finite rat | Infinite

datatype json =
    JNull
  | JBool bool
  | JNum number
  | JStr string
  | JArr "json list"
  | JObj "(string \<times> json) list"

datatype error = SyntaxError | TypeError | Failure string

text \<open>
  The property read \<open>data.k\<close>, for the two keys the handler reads (\<open>type\<close> and
  \<open>message\<close>, which no prototype defines): \<open>None\<close> is \<open>undefined\<close>, and reading a
  property of \<open>null\<close> raises.
\<close>

fun read_prop :: "json \<Rightarrow> string \<Rightarrow> error + json option" where
  "read_prop JNull k = Inl TypeError"
| "read_prop (JObj kvs) k = Inr (map_of kvs k)"
| "read_prop (JBool b) k = Inr None"
| "read_prop (JNum n) k = Inr None"
| "read_prop (JStr s) k = Inr None"
| "read_prop (JArr xs) k = Inr None"

text \<open>The truth value JavaScript gives a value in a condition.\<close>

fun truthy :: "json option \<Rightarrow> bool" where
  "truthy None = False"
| "truthy (Some JNull) = False"
| "truthy (Some (JBool b)) = b"
| "truthy (Some (JNum (Finite q))) = (q \<noteq> 0)"
| "truthy (Some (JNum Infinite)) = True"
| "truthy (Some (JStr s)) = (s \<noteq> [])"
| "truthy (Some (JArr xs)) = True"
| "truthy (Some (JObj kvs)) = True"

text \<open>
  A text frame on the wire is recorded as the value that \<open>JSON.stringify\<close> was given;
  the characters of the serialisation are not modelled.
\<close>

datatype wire = JSON_stringify json

definition frame :: "string \<Rightarrow> string \<Rightarrow> string \<Rightarrow> wire" where
  "frame t s m =
     JSON_stringify (JObj [(''type'', JStr t), (''status'', JStr s), (''message'', JStr m)])"

definition chat_started :: wire where
  "chat_started = frame ''chat_started'' ''success'' ''Chat session initiated''"

definition chat_opened :: wire where
  "chat_opened = frame ''chat_opened'' ''success'' ''Chat opened successfully''"

definition clear_started :: wire where
  "clear_started = frame ''clear_started'' ''success'' ''Clearing chat history...''"

definition clear_completed :: wire where
  "clear_completed = frame ''clear_completed'' ''success'' ''Chat history cleared successfully''"

definition invalid_format :: wire where
  \<open>invalid_format = frame ''error'' ''error''
     ''Invalid message format. Expected: {type: "chat", message: "your message"} or {type: "clear_history"}''\<close>

definition failed_to_process :: wire where
  "failed_to_process = frame ''error'' ''error'' ''Failed to process message''"

text \<open>The \<open>message\<close> field of a frame, as the client reads it.\<close>

fun message_of :: "wire \<Rightarrow> string" where
  "message_of (JSON_stringify (JObj kvs)) =
     (case map_of kvs ''message'' of Some (JStr m) \<Rightarrow> m | _ \<Rightarrow> [])"
| "message_of (JSON_stringify v) = []"

subsection \<open>State\<close>

datatype ready_state = CONNECTING | OPEN | CLOSING | CLOSED

text \<open>
  One \<open>WebSocket\<close>, named by a number. \<open>send\<close> on it raises \<open>send_raises\<close> when that
  is set; otherwise the frame reaches the peer exactly when the socket is open, and
  \<open>inbox\<close> lists the frames that have reached the peer, oldest first.
\<close>

record socket =
  readyState :: ready_state
  send_raises :: "error option"
  inbox :: "wire list"

datatype log_entry =
    Log string
  | LogPort string nat
  | LogError string error

text \<open>
  A run of the \<open>message\<close> handler that is suspended at an \<open>await\<close>: at the import of
  the editor API, or at \<open>executeCommand\<close>. It remembers its socket, the command and
  its arguments, and the frame it sends when the command has succeeded.
\<close>

datatype suspended =
    AwaitImport nat string "json list" wire
  | AwaitCommand nat string "json list" wire

text \<open>
  The fields of the class (\<open>server\<close>, \<open>wss\<close>, \<open>port\<close>, \<open>isActive\<close>,
  \<open>connectedClients\<close>, a JavaScript \<open>Set\<close> in insertion order) and what the class has
  done to its collaborators: the sockets, the console, the commands executed, the
  HTTP servers created and their \<open>listen\<close> and \<open>close\<close> requests. \<open>awaiting\<close> lists the
  suspended runs of the \<open>message\<close> handler, and \<open>uncaught\<close> the errors that were raised
  in a listener with nothing to catch them.
\<close>

record state =
  server :: "nat option"
  wss :: "nat option"
  port :: nat
  isActive :: bool
  connectedClients :: "nat list"
  sockets :: "nat \<Rightarrow> socket"
  console :: "log_entry list"
  executed :: "(string \<times> json list) list"
  servers :: nat
  listens :: "(nat \<times> nat) list"
  wss_closes :: "nat list"
  server_closes :: "nat list"
  awaiting :: "suspended list"
  uncaught :: "error list"

text \<open>How a promise ends: fulfilled, rejected with an error, or never settled.\<close>

datatype promise = Resolved | Rejected error | Pending

text \<open>
  What the collaborators answer: \<open>JSON.parse\<close> (\<open>None\<close> when it raises
  \<open>SyntaxError\<close>), the dynamic import of the editor API, \<open>executeCommand\<close>, and whether
  the two constructors called by \<open>start\<close> raise.
\<close>

record host =
  JSON_parse :: "string \<Rightarrow> json option"
  import_vscode :: promise
  executeCommand :: "string \<Rightarrow> json list \<Rightarrow> promise"
  createServer_raises :: "error option"
  WebSocketServer_raises :: "error option"

definition console_log :: "log_entry \<Rightarrow> state \<Rightarrow> state" where
  "console_log l \<sigma> = \<sigma>\<lparr>console := console \<sigma> @ [l]\<rparr>"

text \<open>\<open>ws.send(data)\<close>.\<close>

definition send :: "nat \<Rightarrow> wire \<Rightarrow> state \<Rightarrow> error + state" where
  "send ws data \<sigma> =
     (let c = sockets \<sigma> ws in
      case send_raises c of
        Some e \<Rightarrow> Inl e
      | None \<Rightarrow>
          Inr (if readyState c = OPEN
               then \<sigma>\<lparr>sockets := (sockets \<sigma>)(ws := c\<lparr>inbox := inbox c @ [data]\<rparr>)\<rparr>
               else \<sigma>))"

text \<open>\<open>this.connectedClients.add(ws)\<close> and \<open>this.connectedClients.delete(ws)\<close>.\<close>

definition add_client :: "nat \<Rightarrow> state \<Rightarrow> state" where
  "add_client ws \<sigma> =
     (if ws \<in> set (connectedClients \<sigma>) then \<sigma>
      else \<sigma>\<lparr>connectedClients := connectedClients \<sigma> @ [ws]\<rparr>)"

definition delete_client :: "nat \<Rightarrow> state \<Rightarrow> state" where
  "delete_client ws \<sigma> = \<sigma>\<lparr>connectedClients := removeAll ws (connectedClients \<sigma>)\<rparr>"

subsection \<open>The message handler\<close>

text \<open>
  \<open>await import('vscode')\<close> followed by \<open>await vscodeModule.commands.executeCommand(...)\<close>:
  the command is executed only once the module has loaded.
\<close>

definition run_command :: "host \<Rightarrow> string \<Rightarrow> json list \<Rightarrow> state \<Rightarrow> promise \<times> state" where
  "run_command h cmd args \<sigma> =
     (case import_vscode h of
        Resolved \<Rightarrow> (executeCommand h cmd args, \<sigma>\<lparr>executed := executed \<sigma> @ [(cmd, args)]\<rparr>)
      | Rejected e \<Rightarrow> (Rejected e, \<sigma>)
      | Pending \<Rightarrow> (Pending, \<sigma>))"

text \<open>
  The body of the \<open>try\<close> block of the \<open>message\<close> handler of socket \<open>ws\<close>. The result is
  \<open>Resolved\<close> when the block runs to its end, \<open>Rejected e\<close> when it raises \<open>e\<close>, and
  \<open>Pending\<close> when an awaited promise never settles. \<open>data.message\<close> is read together
  with \<open>data.type\<close>: a read has no effect, and either both raise or neither.
\<close>

definition on_message_try :: "host \<Rightarrow> nat \<Rightarrow> string \<Rightarrow> state \<Rightarrow> promise \<times> state" where
  "on_message_try h ws message \<sigma> =
     (case JSON_parse h message of
        None \<Rightarrow> (Rejected SyntaxError, \<sigma>)
      | Some data \<Rightarrow>
         (case (read_prop data ''type'', read_prop data ''message'') of
            (Inr ty, Inr msg) \<Rightarrow>
              (case (if ty = Some (JStr ''chat'') \<and> truthy msg then msg else None) of
                 Some text \<Rightarrow>
                   (case send ws chat_started \<sigma> of
                      Inl e \<Rightarrow> (Rejected e, \<sigma>)
                    | Inr \<sigma>1 \<Rightarrow>
                       (case run_command h ''workbench.action.chat.open''
                               [JObj [(''query'', text)]] \<sigma>1 of
                          (Resolved, \<sigma>2) \<Rightarrow>
                            (case send ws chat_opened \<sigma>2 of
                               Inl e \<Rightarrow> (Rejected e, \<sigma>2)
                             | Inr \<sigma>3 \<Rightarrow> (Resolved, \<sigma>3))
                        | r \<Rightarrow> r))
               | None \<Rightarrow>
                   if ty = Some (JStr ''clear_history'') then
                     (case send ws clear_started \<sigma> of
                        Inl e \<Rightarrow> (Rejected e, \<sigma>)
                      | Inr \<sigma>1 \<Rightarrow>
                         (case run_command h ''workbench.action.chat.clearHistory'' [] \<sigma>1 of
                            (Resolved, \<sigma>2) \<Rightarrow>
                              (case send ws clear_completed \<sigma>2 of
                                 Inl e \<Rightarrow> (Rejected e, \<sigma>2)
                               | Inr \<sigma>3 \<Rightarrow> (Resolved, \<sigma>3))
                          | r \<Rightarrow> r))
                   else
                     (case send ws invalid_format \<sigma> of
                        Inl e \<Rightarrow> (Rejected e, \<sigma>)
                      | Inr \<sigma>1 \<Rightarrow> (Resolved, \<sigma>1)))
          | (Inl e, _) \<Rightarrow> (Rejected e, \<sigma>)
          | (_, Inl e) \<Rightarrow> (Rejected e, \<sigma>)))"

text \<open>
  The handler: the \<open>try\<close> block, and the \<open>catch\<close> block when it raised. The result is
  how the promise of the \<open>async\<close> handler ends; a \<open>send\<close> that raises inside \<open>catch\<close>
  rejects it.
\<close>

definition on_message :: "host \<Rightarrow> nat \<Rightarrow> string \<Rightarrow> state \<Rightarrow> promise \<times> state" where
  "on_message h ws message \<sigma> =
     (case on_message_try h ws message \<sigma> of
        (Rejected e, \<sigma>1) \<Rightarrow>
          (let \<sigma>2 = console_log (LogError ''Error processing WebSocket message:'' e) \<sigma>1 in
           case send ws failed_to_process \<sigma>2 of
             Inl e' \<Rightarrow> (Rejected e', \<sigma>2)
           | Inr \<sigma>3 \<Rightarrow> (Resolved, \<sigma>3))
      | r \<Rightarrow> r)"

text \<open>
  The same handler in the pieces in which it really runs. A piece ends where the
  handler ends (\<open>Finished\<close>, with the end of its promise) or at an \<open>await\<close>
  (\<open>Awaiting\<close>); other events happen between two pieces. \<open>on_message_catch\<close> is the
  \<open>catch\<close> block, \<open>on_message_begin\<close> the handler up to its first \<open>await\<close>, and
  \<open>on_message_resume\<close> the piece that runs when the awaited promise settles; while
  that promise is not settled the handler stays suspended.
\<close>

datatype outcome = Finished promise | Awaiting suspended

definition on_message_catch :: "nat \<Rightarrow> error \<Rightarrow> state \<Rightarrow> outcome \<times> state" where
  "on_message_catch ws e \<sigma> =
     (let \<sigma>2 = console_log (LogError ''Error processing WebSocket message:'' e) \<sigma> in
      case send ws failed_to_process \<sigma>2 of
        Inl e' \<Rightarrow> (Finished (Rejected e'), \<sigma>2)
      | Inr \<sigma>3 \<Rightarrow> (Finished Resolved, \<sigma>3))"

definition on_message_begin :: "host \<Rightarrow> nat \<Rightarrow> string \<Rightarrow> state \<Rightarrow> outcome \<times> state" where
  "on_message_begin h ws message \<sigma> =
     (case JSON_parse h message of
        None \<Rightarrow> on_message_catch ws SyntaxError \<sigma>
      | Some data \<Rightarrow>
         (case (read_prop data ''type'', read_prop data ''message'') of
            (Inr ty, Inr msg) \<Rightarrow>
              (case (if ty = Some (JStr ''chat'') \<and> truthy msg then msg else None) of
                 Some text \<Rightarrow>
                   (case send ws chat_started \<sigma> of
                      Inl e \<Rightarrow> on_message_catch ws e \<sigma>
                    | Inr \<sigma>1 \<Rightarrow>
                       (Awaiting (AwaitImport ws ''workbench.action.chat.open''
                          [JObj [(''query'', text)]] chat_opened), \<sigma>1))
               | None \<Rightarrow>
                   if ty = Some (JStr ''clear_history'') then
                     (case send ws clear_started \<sigma> of
                        Inl e \<Rightarrow> on_message_catch ws e \<sigma>
                      | Inr \<sigma>1 \<Rightarrow>
                         (Awaiting (AwaitImport ws ''workbench.action.chat.clearHistory''
                            [] clear_completed), \<sigma>1))
                   else
                     (case send ws invalid_format \<sigma> of
                        Inl e \<Rightarrow> on_message_catch ws e \<sigma>
                      | Inr \<sigma>1 \<Rightarrow> (Finished Resolved, \<sigma>1)))
          | (Inl e, _) \<Rightarrow> on_message_catch ws e \<sigma>
          | (_, Inl e) \<Rightarrow> on_message_catch ws e \<sigma>))"

fun on_message_resume :: "host \<Rightarrow> suspended \<Rightarrow> state \<Rightarrow> outcome \<times> state" where
  "on_message_resume h (AwaitImport ws cmd args final) \<sigma> =
     (case import_vscode h of
        Resolved \<Rightarrow>
          (Awaiting (AwaitCommand ws cmd args final), \<sigma>\<lparr>executed := executed \<sigma> @ [(cmd, args)]\<rparr>)
      | Rejected e \<Rightarrow> on_message_catch ws e \<sigma>
      | Pending \<Rightarrow> (Awaiting (AwaitImport ws cmd args final), \<sigma>))"
| "on_message_resume h (AwaitCommand ws cmd args final) \<sigma> =
     (case executeCommand h cmd args of
        Resolved \<Rightarrow>
          (case send ws final \<sigma> of
             Inl e \<Rightarrow> on_message_catch ws e \<sigma>
           | Inr \<sigma>1 \<Rightarrow> (Finished Resolved, \<sigma>1))
      | Rejected e \<Rightarrow> on_message_catch ws e \<sigma>
      | Pending \<Rightarrow> (Awaiting (AwaitCommand ws cmd args final), \<sigma>))"

text \<open>
  The pieces run one after the other with no event in between: the handler has at most
  two \<open>await\<close>s, and a promise that is still not settled then never settles.
\<close>

definition on_message_pieces :: "host \<Rightarrow> nat \<Rightarrow> string \<Rightarrow> state \<Rightarrow> promise \<times> state" where
  "on_message_pieces h ws message \<sigma> =
     (case on_message_begin h ws message \<sigma> of
        (Finished r, \<sigma>1) \<Rightarrow> (r, \<sigma>1)
      | (Awaiting k1, \<sigma>1) \<Rightarrow>
         (case on_message_resume h k1 \<sigma>1 of
            (Finished r, \<sigma>2) \<Rightarrow> (r, \<sigma>2)
          | (Awaiting k2, \<sigma>2) \<Rightarrow>
             (case on_message_resume h k2 \<sigma>2 of
                (Finished r, \<sigma>3) \<Rightarrow> (r, \<sigma>3)
              | (Awaiting k3, \<sigma>3) \<Rightarrow> (Pending, \<sigma>3))))"

text \<open>A piece that ends at an \<open>await\<close> leaves its handler among the suspended ones.\<close>

definition suspend :: "outcome \<times> state \<Rightarrow> state" where
  "suspend r =
     (case r of
        (Finished p, \<sigma>) \<Rightarrow> \<sigma>
      | (Awaiting k, \<sigma>) \<Rightarrow> \<sigma>\<lparr>awaiting := awaiting \<sigma> @ [k]\<rparr>)"

subsection \<open>The connection handlers\<close>

text \<open>The \<open>connection\<close> handler of the socket server, up to the handlers it installs.\<close>

definition on_connection :: "nat \<Rightarrow> state \<Rightarrow> state" where
  "on_connection ws \<sigma> = add_client ws (console_log (Log ''WebSocket client connected'') \<sigma>)"

definition on_close :: "nat \<Rightarrow> state \<Rightarrow> state" where
  "on_close ws \<sigma> = delete_client ws (console_log (Log ''WebSocket client disconnected'') \<sigma>)"

definition on_error :: "nat \<Rightarrow> error \<Rightarrow> state \<Rightarrow> state" where
  "on_error ws e \<sigma> = delete_client ws (console_log (LogError ''WebSocket error:'' e) \<sigma>)"

subsection \<open>Starting and stopping\<close>

text \<open>The fields of a new instance, beside the sockets of the process.\<close>

definition new_service :: "(nat \<Rightarrow> socket) \<Rightarrow> state" where
  "new_service socks =
     \<lparr>server = None, wss = None, port = 3001, isActive = False, connectedClients = [],
      sockets = socks, console = [], executed = [], servers = 0, listens = [],
      wss_closes = [], server_closes = [], awaiting = [], uncaught = []\<rparr>"

text \<open>
  \<open>start()\<close> up to the promise it returns: \<open>Resolved\<close> is the early return,
  \<open>Rejected\<close> the \<open>catch\<close> block that logs and raises again, and \<open>Pending\<close> the promise
  that waits for the server's \<open>listen\<close> callback or \<open>error\<close> event. A server is named
  by the number of servers created before it.
\<close>

definition start_call :: "host \<Rightarrow> state \<Rightarrow> promise \<times> state" where
  "start_call h \<sigma> =
     (if isActive \<sigma> then (Resolved, \<sigma>)
      else
        case createServer_raises h of
          Some e \<Rightarrow> (Rejected e, console_log (LogError ''Failed to start WebSocket server:'' e) \<sigma>)
        | None \<Rightarrow>
            (let s = servers \<sigma>;
                 \<sigma>1 = \<sigma>\<lparr>server := Some s, servers := Suc s\<rparr>
             in case WebSocketServer_raises h of
                  Some e \<Rightarrow>
                    (Rejected e, console_log (LogError ''Failed to start WebSocket server:'' e) \<sigma>1)
                | None \<Rightarrow>
                    (Pending, \<sigma>1\<lparr>wss := Some s, listens := listens \<sigma>1 @ [(s, port \<sigma>1)]\<rparr>)))"

text \<open>The callback given to \<open>listen\<close>; it resolves the promise of \<open>start\<close>.\<close>

definition listening :: "state \<Rightarrow> state" where
  "listening \<sigma> =
     console_log (LogPort ''WebSocket server started on port'' (port \<sigma>)) (\<sigma>\<lparr>isActive := True\<rparr>)"

text \<open>
  The \<open>error\<close> listeners of the HTTP server. The constructor of the socket server,
  called by \<open>start\<close> with the HTTP server, adds one that emits the error on the socket
  server; \<open>start\<close> then adds its own, which rejects the promise of \<open>start\<close>. The class
  adds no \<open>error\<close> listener to the socket server.
\<close>

datatype listener = EmitOnWss | RejectStart

definition error_listeners :: "listener list" where
  "error_listeners = [EmitOnWss, RejectStart]"

text \<open>
  An event emitter calls the listeners in the order in which they were added. Emitting
  \<open>error\<close> on an emitter without an \<open>error\<close> listener, as \<open>EmitOnWss\<close> does, raises
  the error; the listeners after it are not called and nothing catches the error. The
  result is the promise of \<open>start\<close> and the error that was left uncaught, if any.
\<close>

fun emit_error :: "listener list \<Rightarrow> error \<Rightarrow> promise \<Rightarrow> promise \<times> error option" where
  "emit_error [] e p = (p, None)"
| "emit_error (EmitOnWss # ls) e p = (p, Some e)"
| "emit_error (RejectStart # ls) e p =
     emit_error ls e (case p of Pending \<Rightarrow> Rejected e | q \<Rightarrow> q)"

text \<open>The HTTP server emits \<open>error\<close> while the promise of \<open>start\<close> is \<open>p\<close>.\<close>

definition server_error :: "error \<Rightarrow> promise \<Rightarrow> state \<Rightarrow> promise \<times> state" where
  "server_error e p \<sigma> =
     (case emit_error error_listeners e p of
        (q, None) \<Rightarrow> (q, \<sigma>)
      | (q, Some e') \<Rightarrow> (q, \<sigma>\<lparr>uncaught := uncaught \<sigma> @ [e']\<rparr>))"

text \<open>
  What the HTTP server answers to \<open>listen\<close>: it calls back, it emits \<open>error\<close>, or
  neither yet.
\<close>

datatype bind = Bound | BindFailed error | Unanswered

text \<open>\<open>start()\<close> with the server's answer: how its promise ends.\<close>

definition start :: "host \<Rightarrow> bind \<Rightarrow> state \<Rightarrow> promise \<times> state" where
  "start h b \<sigma> =
     (case start_call h \<sigma> of
        (Pending, \<sigma>1) \<Rightarrow>
          (case b of
             Bound \<Rightarrow> (Resolved, listening \<sigma>1)
           | BindFailed e \<Rightarrow> server_error e Pending \<sigma>1
           | Unanswered \<Rightarrow> (Pending, \<sigma>1))
      | r \<Rightarrow> r)"

text \<open>
  \<open>stop()\<close> up to the promise it returns, the callback given to \<open>wss.close\<close>, and the
  callback given to \<open>server.close\<close>.
\<close>

definition stopped :: "state \<Rightarrow> state" where
  "stopped \<sigma> = \<sigma>\<lparr>isActive := False, connectedClients := []\<rparr>"

definition stop_call :: "state \<Rightarrow> promise \<times> state" where
  "stop_call \<sigma> =
     (if \<not> isActive \<sigma> then (Resolved, \<sigma>)
      else
        case wss \<sigma> of
          Some w \<Rightarrow> (Pending, \<sigma>\<lparr>wss_closes := wss_closes \<sigma> @ [w]\<rparr>)
        | None \<Rightarrow> (Resolved, stopped \<sigma>))"

definition wss_closed :: "state \<Rightarrow> promise \<times> state" where
  "wss_closed \<sigma> =
     (case server \<sigma> of
        Some s \<Rightarrow> (Pending, \<sigma>\<lparr>server_closes := server_closes \<sigma> @ [s]\<rparr>)
      | None \<Rightarrow> (Resolved, stopped \<sigma>))"

definition server_closed :: "state \<Rightarrow> promise \<times> state" where
  "server_closed \<sigma> = (Resolved, console_log (Log ''WebSocket server stopped'') (stopped \<sigma>))"

text \<open>
  \<open>stop()\<close> with the answers of the two servers: \<open>wcb\<close> says that the socket server
  calls back, \<open>scb\<close> that the HTTP server does.
\<close>

definition stop :: "bool \<Rightarrow> bool \<Rightarrow> state \<Rightarrow> promise \<times> state" where
  "stop wcb scb \<sigma> =
     (case stop_call \<sigma> of
        (Pending, \<sigma>1) \<Rightarrow>
          if wcb then
            (case wss_closed \<sigma>1 of
               (Pending, \<sigma>2) \<Rightarrow> if scb then server_closed \<sigma>2 else (Pending, \<sigma>2)
             | r \<Rightarrow> r)
          else (Pending, \<sigma>1)
      | r \<Rightarrow> r)"

definition isRunning :: "state \<Rightarrow> bool" where
  "isRunning \<sigma> = isActive \<sigma>"

definition getPort :: "state \<Rightarrow> nat" where
  "getPort \<sigma> = port \<sigma>"

subsection \<open>Broadcast\<close>

text \<open>
  The body of \<open>forEach\<close> for one client, and the iteration. A \<open>Set\<close> visits every
  member that is still in it when its turn comes, and the body deletes no client but
  the one it is visiting, so the iteration visits the members the set had at the call.
\<close>

definition broadcast_client :: "wire \<Rightarrow> nat \<Rightarrow> state \<Rightarrow> state" where
  "broadcast_client messageString client \<sigma> =
     (if readyState (sockets \<sigma> client) = OPEN then
        (case send client messageString \<sigma> of
           Inr \<sigma>1 \<Rightarrow> \<sigma>1
         | Inl e \<Rightarrow>
             delete_client client
               (console_log (LogError ''Error sending message to client:'' e) \<sigma>))
      else \<sigma>)"

fun broadcast_each :: "wire \<Rightarrow> nat list \<Rightarrow> state \<Rightarrow> state" where
  "broadcast_each messageString [] \<sigma> = \<sigma>"
| "broadcast_each messageString (client # clients) \<sigma> =
     broadcast_each messageString clients (broadcast_client messageString client \<sigma>)"

definition broadcast :: "json \<Rightarrow> state \<Rightarrow> state" where
  "broadcast message \<sigma> =
     (let messageString = JSON_stringify message
      in broadcast_each messageString (connectedClients \<sigma>) \<sigma>)"

subsection \<open>Runs\<close>

text \<open>
  The events of a run: the calls of the methods, the callbacks of the two servers, the
  events of the sockets, \<open>Settled i\<close>, by which the promise that the \<open>i\<close>-th suspended
  handler awaits settles and the handler runs on, and \<open>Transport\<close>, by which the
  network changes the state of a socket. A handler runs to its end or to its next
  \<open>await\<close> before the next event.
\<close>

datatype event =
    Start
  | Listening
  | ServerError error
  | Stop
  | WssClosed
  | ServerClosed
  | Connection nat
  | Message nat string
  | Settled nat
  | Close nat
  | SocketError nat error
  | Broadcast json
  | Transport nat ready_state "error option"

fun step :: "host \<Rightarrow> event \<Rightarrow> state \<Rightarrow> state" where
  "step h Start \<sigma> = snd (start_call h \<sigma>)"
| "step h Listening \<sigma> = listening \<sigma>"
| "step h (ServerError e) \<sigma> = snd (server_error e Pending \<sigma>)"
| "step h Stop \<sigma> = snd (stop_call \<sigma>)"
| "step h WssClosed \<sigma> = snd (wss_closed \<sigma>)"
| "step h ServerClosed \<sigma> = snd (server_closed \<sigma>)"
| "step h (Connection ws) \<sigma> = on_connection ws \<sigma>"
| "step h (Message ws message) \<sigma> = suspend (on_message_begin h ws message \<sigma>)"
| "step h (Settled i) \<sigma> =
     (if i < length (awaiting \<sigma>) then
        suspend (on_message_resume h (awaiting \<sigma> ! i)
          (\<sigma>\<lparr>awaiting := take i (awaiting \<sigma>) @ drop (Suc i) (awaiting \<sigma>)\<rparr>))
      else \<sigma>)"
| "step h (Close ws) \<sigma> = on_close ws \<sigma>"
| "step h (SocketError ws e) \<sigma> = on_error ws e \<sigma>"
| "step h (Broadcast message) \<sigma> = broadcast message \<sigma>"
| "step h (Transport ws rs r) \<sigma> =
     \<sigma>\<lparr>sockets := (sockets \<sigma>)(ws := (sockets \<sigma> ws)\<lparr>readyState := rs, send_raises := r\<rparr>)\<rparr>"

fun run :: "host \<Rightarrow> event list \<Rightarrow> state \<Rightarrow> state" where
  "run h [] \<sigma> = \<sigma>"
| "run h (ev # evs) \<sigma> = run h evs (step h ev \<sigma>)"

text \<open>Whether a text begins with another.\<close>

definition begins_with :: "string \<Rightarrow> string \<Rightarrow> bool" where
  "begins_with p s = (take (length p) s = p)"

subsection \<open>A small host and its sockets\<close>

text \<open>
  A host for concrete runs: its \<open>JSON.parse\<close> knows four payloads and raises on every
  other text, and its commands succeed.
\<close>

definition hello_payload :: string where
  \<open>hello_payload = ''{"type":"chat","message":"hello"}''\<close>

definition empty_chat_payload :: string where
  \<open>empty_chat_payload = ''{"type":"chat","message":""}''\<close>

definition clear_payload :: string where
  \<open>clear_payload = ''{"type":"clear_history"}''\<close>

definition other_payload :: string where
  \<open>other_payload = ''{"not":"valid"}''\<close>

definition small_parse :: "string \<Rightarrow> json option" where
  "small_parse s =
     (if s = hello_payload then
        Some (JObj [(''type'', JStr ''chat''), (''message'', JStr ''hello'')])
      else if s = empty_chat_payload then
        Some (JObj [(''type'', JStr ''chat''), (''message'', JStr [])])
      else if s = clear_payload then
        Some (JObj [(''type'', JStr ''clear_history'')])
      else if s = other_payload then
        Some (JObj [(''not'', JStr ''valid'')])
      else None)"

definition small_host :: host where
  "small_host =
     \<lparr>JSON_parse = small_parse, import_vscode = Resolved,
      executeCommand = (\<lambda>cmd args. Resolved),
      createServer_raises = None, WebSocketServer_raises = None\<rparr>"


definition open_socket :: socket where
  "open_socket = \<lparr>readyState = OPEN, send_raises = None, inbox = []\<rparr>"

definition closed_socket :: socket where
  "closed_socket = \<lparr>readyState = CLOSED, send_raises = None, inbox = []\<rparr>"

text \<open>Socket 1 is closed, every other socket is open.\<close>

definition small_sockets :: "nat \<Rightarrow> socket" where
  "small_sockets ws = (if ws = 1 then closed_socket else open_socket)"

text \<open>A running service with the sockets 0, 1 and 2 accepted.\<close>

definition small_running :: state where
  "small_running =
     run small_host [Start, Listening, Connection 0, Connection 1, Connection 2]
       (new_service small_sockets)"

text \<open>
  The same service in the middle of a \<open>stop()\<close>: socket 0 has sent a chat frame whose
  handler is suspended, the socket server has called back, and socket 3 has been
  accepted; the callback of the HTTP server is still to come.
\<close>

definition small_stopping :: state where
  "small_stopping =
     run small_host [Stop, Message 0 hello_payload, WssClosed, Connection 3] small_running"

text \<open>The same service once \<open>send\<close> on socket 2 has begun to raise.\<close>

definition raising_running :: state where
  "raising_running = step small_host (Transport 2 OPEN (Some (Failure ''EPIPE''))) small_running"

subsection \<open>Relations between states\<close>

text \<open>The \<open>catch\<close> block as \<open>on_message\<close> has it, by itself.\<close>

definition caught :: "nat \<Rightarrow> error \<Rightarrow> state \<Rightarrow> promise \<times> state" where
  "caught ws e \<sigma>1 =
     (let \<sigma>2 = console_log (LogError ''Error processing WebSocket message:'' e) \<sigma>1 in
      case send ws failed_to_process \<sigma>2 of
        Inl e' \<Rightarrow> (Rejected e', \<sigma>2)
      | Inr \<sigma>3 \<Rightarrow> (Resolved, \<sigma>3))"

text \<open>
  A state that differs from another at most in the frames that socket \<open>ws\<close> has
  received, in the console and in the commands executed.
\<close>

definition replies_only :: "nat \<Rightarrow> state \<Rightarrow> state \<Rightarrow> bool" where
  "replies_only ws \<sigma> \<sigma>' \<longleftrightarrow>
     server \<sigma>' = server \<sigma> \<and> wss \<sigma>' = wss \<sigma> \<and> port \<sigma>' = port \<sigma> \<and>
     isActive \<sigma>' = isActive \<sigma> \<and> connectedClients \<sigma>' = connectedClients \<sigma> \<and>
     servers \<sigma>' = servers \<sigma> \<and> listens \<sigma>' = listens \<sigma> \<and>
     wss_closes \<sigma>' = wss_closes \<sigma> \<and> server_closes \<sigma>' = server_closes \<sigma> \<and>
     (\<forall>x. x \<noteq> ws \<longrightarrow> sockets \<sigma>' x = sockets \<sigma> x) \<and>
     readyState (sockets \<sigma>' ws) = readyState (sockets \<sigma> ws) \<and>
     send_raises (sockets \<sigma>' ws) = send_raises (sockets \<sigma> ws)"

section \<open>The small host\<close>

lemma small_running_eq:
  "small_running =
     \<lparr>server = Some 0, wss = Some 0, port = 3001, isActive = True,
      connectedClients = [0, 1, 2], sockets = small_sockets,
      console = [LogPort ''WebSocket server started on port'' 3001,
                 Log ''WebSocket client connected'', Log ''WebSocket client connected'',
                 Log ''WebSocket client connected''],
      executed = [], servers = 1, listens = [(0, 3001)],
      wss_closes = [], server_closes = [], awaiting = [], uncaught = []\<rparr>"
  by (simp add: small_running_def new_service_def small_host_def start_call_def listening_def
      on_connection_def add_client_def console_log_def)

lemma small_socket_0:
  "readyState (sockets small_running 0) = OPEN"
  "send_raises (sockets small_running 0) = None"
  "inbox (sockets small_running 0) = []"
  by (simp_all add: small_running_eq small_sockets_def open_socket_def)

lemma small_parse_hello:
  "JSON_parse small_host hello_payload =
     Some (JObj [(''type'', JStr ''chat''), (''message'', JStr ''hello'')])"
  by (simp add: small_host_def small_parse_def)

section \<open>The message handler replies to its own socket\<close>


lemma replies_only_refl: "replies_only ws \<sigma> \<sigma>"
  by (simp add: replies_only_def)

lemma replies_only_trans:
  "replies_only ws \<sigma> \<sigma>1 \<Longrightarrow> replies_only ws \<sigma>1 \<sigma>2 \<Longrightarrow> replies_only ws \<sigma> \<sigma>2"
  by (simp add: replies_only_def)

lemma replies_only_log: "replies_only ws \<sigma> (console_log l \<sigma>)"
  by (simp add: replies_only_def console_log_def)

lemma replies_only_send: "send ws d \<sigma> = Inr \<sigma>' \<Longrightarrow> replies_only ws \<sigma> \<sigma>'"
  by (auto simp: replies_only_def send_def Let_def split: option.splits if_splits)




text \<open>
  Run with no event in between, the pieces of the handler do what the handler does.
\<close>

lemma on_message_catch_eq:
  "on_message_catch ws e \<sigma> =
     (case send ws failed_to_process
             (console_log (LogError ''Error processing WebSocket message:'' e) \<sigma>) of
        Inl e' \<Rightarrow>
          (Finished (Rejected e'),
           console_log (LogError ''Error processing WebSocket message:'' e) \<sigma>)
      | Inr \<sigma>3 \<Rightarrow> (Finished Resolved, \<sigma>3))"
  by (simp add: on_message_catch_def Let_def)

lemma catch_caught:
  "on_message_catch ws e \<sigma> = (Finished (fst (caught ws e \<sigma>)), snd (caught ws e \<sigma>))"
  by (simp add: on_message_catch_def caught_def Let_def split: sum.splits)

lemma on_message_caught:
  "on_message h ws p \<sigma> =
     (case on_message_try h ws p \<sigma> of (Rejected e, \<sigma>1) \<Rightarrow> caught ws e \<sigma>1 | r \<Rightarrow> r)"
  by (simp add: on_message_def caught_def split: prod.splits promise.splits)

lemma tail_eq:
  "(case (case run_command h cmd args \<sigma>1 of
            (Resolved, \<sigma>2) \<Rightarrow>
              (case send ws fin \<sigma>2 of Inl e \<Rightarrow> (Rejected e, \<sigma>2) | Inr \<sigma>3 \<Rightarrow> (Resolved, \<sigma>3))
          | r \<Rightarrow> r) of
      (Rejected e, s) \<Rightarrow> caught ws e s | r \<Rightarrow> r) =
   (case on_message_resume h (AwaitImport ws cmd args fin) \<sigma>1 of
            (Finished r, \<sigma>2) \<Rightarrow> (r, \<sigma>2)
          | (Awaiting k2, \<sigma>2) \<Rightarrow>
             (case on_message_resume h k2 \<sigma>2 of
                (Finished r, \<sigma>3) \<Rightarrow> (r, \<sigma>3)
              | (Awaiting k3, \<sigma>3) \<Rightarrow> (Pending, \<sigma>3)))"
proof (cases "import_vscode h")
  case Resolved
  show ?thesis
    by (cases "executeCommand h cmd args"; cases "send ws fin (\<sigma>1\<lparr>executed := executed \<sigma>1 @ [(cmd, args)]\<rparr>)")
       (simp_all add: Resolved run_command_def catch_caught)
next
  case (Rejected e)
  then show ?thesis by (simp add: run_command_def catch_caught)
next
  case Pending
  then show ?thesis by (simp add: run_command_def)
qed

lemma branch_eq:
  "(case (case send ws ack \<sigma> of
            Inl e \<Rightarrow> (Rejected e, \<sigma>)
          | Inr \<sigma>1 \<Rightarrow>
             (case run_command h cmd args \<sigma>1 of
                (Resolved, \<sigma>2) \<Rightarrow>
                  (case send ws fin \<sigma>2 of Inl e \<Rightarrow> (Rejected e, \<sigma>2) | Inr \<sigma>3 \<Rightarrow> (Resolved, \<sigma>3))
              | r \<Rightarrow> r)) of
      (Rejected e, s) \<Rightarrow> caught ws e s | r \<Rightarrow> r) =
   (case (case send ws ack \<sigma> of
            Inl e \<Rightarrow> on_message_catch ws e \<sigma>
          | Inr \<sigma>1 \<Rightarrow> (Awaiting (AwaitImport ws cmd args fin), \<sigma>1)) of
      (Finished r, \<sigma>1) \<Rightarrow> (r, \<sigma>1)
    | (Awaiting k1, \<sigma>1) \<Rightarrow>
       (case on_message_resume h k1 \<sigma>1 of
          (Finished r, \<sigma>2) \<Rightarrow> (r, \<sigma>2)
        | (Awaiting k2, \<sigma>2) \<Rightarrow>
           (case on_message_resume h k2 \<sigma>2 of
              (Finished r, \<sigma>3) \<Rightarrow> (r, \<sigma>3)
            | (Awaiting k3, \<sigma>3) \<Rightarrow> (Pending, \<sigma>3))))"
proof (cases "send ws ack \<sigma>")
  case (Inl e)
  then show ?thesis by (simp add: catch_caught)
next
  case (Inr \<sigma>1)
  then show ?thesis by (simp add: tail_eq)
qed

lemma on_message_pieces_eq: "on_message h ws p \<sigma> = on_message_pieces h ws p \<sigma>"
proof (cases "JSON_parse h p")
  case None
  then show ?thesis
    by (simp add: on_message_caught on_message_try_def on_message_pieces_def
        on_message_begin_def catch_caught)
next
  case (Some data)
  show ?thesis
  proof (cases "read_prop data ''type''")
    case (Inl e)
    then show ?thesis using Some
      by (simp add: on_message_caught on_message_try_def on_message_pieces_def
          on_message_begin_def catch_caught)
  next
    case ty: (Inr ty)
    show ?thesis
    proof (cases "read_prop data ''message''")
      case (Inl e)
      then show ?thesis using Some ty
        by (simp add: on_message_caught on_message_try_def on_message_pieces_def
            on_message_begin_def catch_caught)
    next
      case msg: (Inr msg)
      show ?thesis
      proof (cases "if ty = Some (JStr ''chat'') \<and> truthy msg then msg else None")
        case (Some t)
        then show ?thesis using \<open>JSON_parse h p = Some data\<close> ty msg
          by (simp add: on_message_caught on_message_try_def on_message_pieces_def
              on_message_begin_def branch_eq)
      next
        case None
        show ?thesis
        proof (cases "ty = Some (JStr ''clear_history'')")
          case True
          then show ?thesis using \<open>JSON_parse h p = Some data\<close> ty msg None
            by (simp add: on_message_caught on_message_try_def on_message_pieces_def
                on_message_begin_def branch_eq)
        next
          case False
          then show ?thesis using \<open>JSON_parse h p = Some data\<close> ty msg None
            by (cases "send ws invalid_format \<sigma>")
               (simp_all add: on_message_caught on_message_try_def on_message_pieces_def
                on_message_begin_def catch_caught)
        qed
      qed
    qed
  qed
qed

text \<open>Each piece touches what the handler touches, and a suspension nothing else.\<close>

lemma replies_only_catch: "replies_only ws \<sigma> (snd (on_message_catch ws e \<sigma>))"
proof (cases "send ws failed_to_process
    (console_log (LogError ''Error processing WebSocket message:'' e) \<sigma>)")
  case (Inl e')
  then show ?thesis by (simp add: on_message_catch_eq replies_only_log)
next
  case (Inr \<sigma>3)
  then have "replies_only ws
      (console_log (LogError ''Error processing WebSocket message:'' e) \<sigma>) \<sigma>3"
    by (rule replies_only_send)
  with replies_only_log have "replies_only ws \<sigma> \<sigma>3" by (rule replies_only_trans)
  then show ?thesis using Inr by (simp add: on_message_catch_eq)
qed

lemma replies_only_begin: "replies_only ws \<sigma> (snd (on_message_begin h ws p \<sigma>))"
  unfolding on_message_begin_def
  by (auto split: option.splits sum.splits prod.splits
      simp: replies_only_catch replies_only_send)

lemma replies_only_resume: "\<exists>ws. replies_only ws \<sigma> (snd (on_message_resume h k \<sigma>))"
proof (cases k)
  case (AwaitImport ws cmd args final)
  have "replies_only ws \<sigma> (snd (on_message_resume h k \<sigma>))"
    unfolding AwaitImport
    by (cases "import_vscode h") (simp_all add: replies_only_catch replies_only_refl, simp add: replies_only_def)
  then show ?thesis ..
next
  case (AwaitCommand ws cmd args final)
  have "replies_only ws \<sigma> (snd (on_message_resume h k \<sigma>))"
    unfolding AwaitCommand
    by (cases "executeCommand h cmd args"; cases "send ws final \<sigma>")
       (simp_all add: replies_only_catch replies_only_refl replies_only_send)
  then show ?thesis ..
qed

lemma suspend_fields:
  "connectedClients (suspend r) = connectedClients (snd r)"
  "port (suspend r) = port (snd r)"
  "sockets (suspend r) = sockets (snd r)"
  by (cases r; cases "fst r"; simp add: suspend_def)+

lemma begin_fields:
  "connectedClients (suspend (on_message_begin h ws p \<sigma>)) = connectedClients \<sigma>"
  "port (suspend (on_message_begin h ws p \<sigma>)) = port \<sigma>"
  using replies_only_begin [of ws \<sigma> h p] by (simp_all add: suspend_fields replies_only_def)

lemma resume_fields:
  "connectedClients (suspend (on_message_resume h k \<sigma>)) = connectedClients \<sigma>"
  "port (suspend (on_message_resume h k \<sigma>)) = port \<sigma>"
  using replies_only_resume [of \<sigma> h k] by (auto simp: suspend_fields replies_only_def)

lemma settled_fields:
  "connectedClients (step h (Settled i) \<sigma>) = connectedClients \<sigma>"
  "port (step h (Settled i) \<sigma>) = port \<sigma>"
  by (simp_all add: resume_fields)

text \<open>
  C1. A chat frame with a non-empty text, on an open socket whose \<open>send\<close> does not
  raise, with a command that succeeds: the handler ends normally, the socket receives
  the frame of type \<open>chat_started\<close> and then the frame of type \<open>chat_opened\<close>, each
  with status \<open>success\<close> and its own message, and nothing else; every other socket is
  as it was, and the chat-open command was executed once with the text.
\<close>

theorem chat_started_then_opened:
  assumes parse: "JSON_parse h payload = Some (JObj kvs)"
    and ty: "map_of kvs ''type'' = Some (JStr ''chat'')"
    and msg: "map_of kvs ''message'' = Some (JStr text)"
    and nonempty: "text \<noteq> []"
    and imp: "import_vscode h = Resolved"
    and exec: "executeCommand h ''workbench.action.chat.open''
                 [JObj [(''query'', JStr text)]] = Resolved"
    and opn: "readyState (sockets \<sigma> ws) = OPEN"
    and quiet: "send_raises (sockets \<sigma> ws) = None"
  shows "fst (on_message h ws payload \<sigma>) = Resolved \<and>
     inbox (sockets (snd (on_message h ws payload \<sigma>)) ws) =
       inbox (sockets \<sigma> ws) @
         [JSON_stringify (JObj [(''type'', JStr ''chat_started''), (''status'', JStr ''success''),
            (''message'', JStr ''Chat session initiated'')]),
          JSON_stringify (JObj [(''type'', JStr ''chat_opened''), (''status'', JStr ''success''),
            (''message'', JStr ''Chat opened successfully'')])] \<and>
     (\<forall>w. w \<noteq> ws \<longrightarrow> sockets (snd (on_message h ws payload \<sigma>)) w = sockets \<sigma> w) \<and>
     executed (snd (on_message h ws payload \<sigma>)) =
       executed \<sigma> @ [(''workbench.action.chat.open'', [JObj [(''query'', JStr text)]])]"
  using assms
  by (simp add: on_message_def on_message_try_def send_def run_command_def Let_def
      chat_started_def chat_opened_def frame_def)

theorem chat_started_then_opened_witness:
  "JSON_parse small_host hello_payload =
     Some (JObj [(''type'', JStr ''chat''), (''message'', JStr ''hello'')]) \<and>
   readyState (sockets small_running 0) = OPEN \<and>
   send_raises (sockets small_running 0) = None \<and>
   fst (on_message small_host 0 hello_payload small_running) = Resolved \<and>
   inbox (sockets (snd (on_message small_host 0 hello_payload small_running)) 0) =
     [JSON_stringify (JObj [(''type'', JStr ''chat_started''), (''status'', JStr ''success''),
        (''message'', JStr ''Chat session initiated'')]),
      JSON_stringify (JObj [(''type'', JStr ''chat_opened''), (''status'', JStr ''success''),
        (''message'', JStr ''Chat opened successfully'')])] \<and>
   sockets (snd (on_message small_host 0 hello_payload small_running)) 2 =
     sockets small_running 2 \<and>
   executed (snd (on_message small_host 0 hello_payload small_running)) =
     [(''workbench.action.chat.open'', [JObj [(''query'', JStr ''hello'')]])]"
proof -
  have "import_vscode small_host = Resolved"
    and "executeCommand small_host ''workbench.action.chat.open''
           [JObj [(''query'', JStr ''hello'')]] = Resolved"
    by (simp_all add: small_host_def)
  from chat_started_then_opened [OF small_parse_hello _ _ _ this small_socket_0(1,2)]
  show ?thesis
    using small_parse_hello small_socket_0 by (simp add: small_running_eq)
qed



text \<open>
  C10. A chat frame whose \<open>message\<close> is absent or falsy: the socket receives the one
  error frame that begins \<open>Invalid message format. Expected:\<close>, and no command is
  executed.
\<close>

theorem chat_without_message:
  assumes parse: "JSON_parse h payload = Some (JObj kvs)"
    and ty: "map_of kvs ''type'' = Some (JStr ''chat'')"
    and falsy: "\<not> truthy (map_of kvs ''message'')"
    and opn: "readyState (sockets \<sigma> ws) = OPEN"
    and quiet: "send_raises (sockets \<sigma> ws) = None"
  shows "fst (on_message h ws payload \<sigma>) = Resolved \<and>
     inbox (sockets (snd (on_message h ws payload \<sigma>)) ws) =
       inbox (sockets \<sigma> ws) @ [invalid_format] \<and>
     begins_with ''Invalid message format. Expected: '' (message_of invalid_format) \<and>
     executed (snd (on_message h ws payload \<sigma>)) = executed \<sigma> \<and>
     (\<forall>w. w \<noteq> ws \<longrightarrow> sockets (snd (on_message h ws payload \<sigma>)) w = sockets \<sigma> w)"
  using assms
  by (simp add: on_message_def on_message_try_def send_def Let_def
      invalid_format_def frame_def begins_with_def)

theorem chat_without_message_witness:
  "JSON_parse small_host empty_chat_payload =
     Some (JObj [(''type'', JStr ''chat''), (''message'', JStr [])]) \<and>
   \<not> truthy (map_of [(''type'', JStr ''chat''), (''message'', JStr [])] ''message'') \<and>
   readyState (sockets small_running 0) = OPEN \<and>
   send_raises (sockets small_running 0) = None \<and>
   fst (on_message small_host 0 empty_chat_payload small_running) = Resolved \<and>
   inbox (sockets (snd (on_message small_host 0 empty_chat_payload small_running)) 0) =
     [invalid_format] \<and>
   executed (snd (on_message small_host 0 empty_chat_payload small_running)) = []"
proof -
  have p: "JSON_parse small_host empty_chat_payload =
      Some (JObj [(''type'', JStr ''chat''), (''message'', JStr [])])"
    by (simp add: small_host_def small_parse_def hello_payload_def empty_chat_payload_def)
  have f: "\<not> truthy (map_of [(''type'', JStr ''chat''), (''message'', JStr [])] ''message'')"
    by simp
  from chat_without_message [OF p _ f small_socket_0(1,2)] show ?thesis
    using p f small_socket_0 by (simp add: small_running_eq)
qed

section \<open>A payload that does not decode\<close>

text \<open>
  C2, as stated, fails: the \<open>catch\<close> block answers a payload that \<open>JSON.parse\<close>
  rejects with the generic frame \<open>Failed to process message\<close>, which does not begin
  with \<open>Invalid message format\<close>.
\<close>

theorem decode_failure_counterexample:
  "JSON_parse small_host ''{not json'' = None \<and>
   inbox (sockets (snd (on_message small_host 0 ''{not json'' small_running)) 0) =
     [failed_to_process] \<and>
   message_of failed_to_process = ''Failed to process message'' \<and>
   \<not> begins_with ''Invalid message format'' (message_of failed_to_process)"
  by (simp add: small_running_eq small_sockets_def open_socket_def small_host_def
      small_parse_def hello_payload_def empty_chat_payload_def clear_payload_def
      other_payload_def on_message_def on_message_try_def send_def console_log_def Let_def
      failed_to_process_def frame_def begins_with_def)

text \<open>
  C2, amended. A payload that does not decode, on an open socket whose \<open>send\<close> does
  not raise: the failure is logged, the handler ends normally, the socket receives
  exactly the frame \<open>Failed to process message\<close>, no command is executed, the socket
  stays open and registered, and every other socket is as it was.
\<close>

theorem decode_failure_reply:
  assumes parse: "JSON_parse h payload = None"
    and opn: "readyState (sockets \<sigma> ws) = OPEN"
    and quiet: "send_raises (sockets \<sigma> ws) = None"
  shows "fst (on_message h ws payload \<sigma>) = Resolved \<and>
     inbox (sockets (snd (on_message h ws payload \<sigma>)) ws) =
       inbox (sockets \<sigma> ws) @ [failed_to_process] \<and>
     (\<forall>w. w \<noteq> ws \<longrightarrow> sockets (snd (on_message h ws payload \<sigma>)) w = sockets \<sigma> w) \<and>
     readyState (sockets (snd (on_message h ws payload \<sigma>)) ws) = OPEN \<and>
     send_raises (sockets (snd (on_message h ws payload \<sigma>)) ws) = None \<and>
     connectedClients (snd (on_message h ws payload \<sigma>)) = connectedClients \<sigma> \<and>
     isActive (snd (on_message h ws payload \<sigma>)) = isActive \<sigma> \<and>
     executed (snd (on_message h ws payload \<sigma>)) = executed \<sigma> \<and>
     console (snd (on_message h ws payload \<sigma>)) =
       console \<sigma> @ [LogError ''Error processing WebSocket message:'' SyntaxError]"
  using assms
  by (simp add: on_message_def on_message_try_def send_def console_log_def Let_def)

theorem decode_failure_reply_witness:
  "JSON_parse small_host ''{not json'' = None \<and>
   readyState (sockets small_running 0) = OPEN \<and>
   send_raises (sockets small_running 0) = None \<and>
   fst (on_message small_host 0 ''{not json'' small_running) = Resolved \<and>
   inbox (sockets (snd (on_message small_host 0 ''{not json'' small_running)) 0) =
     [failed_to_process] \<and>
   sockets (snd (on_message small_host 0 ''{not json'' small_running)) 2 =
     sockets small_running 2 \<and>
   connectedClients (snd (on_message small_host 0 ''{not json'' small_running)) = [0, 1, 2] \<and>
   inbox (sockets (snd (on_message small_host 0 hello_payload
     (snd (on_message small_host 0 ''{not json'' small_running)))) 0) =
     [failed_to_process, chat_started, chat_opened]"
proof -
  have p: "JSON_parse small_host ''{not json'' = None"
    by (simp add: small_host_def small_parse_def hello_payload_def empty_chat_payload_def
        clear_payload_def other_payload_def)
  have u: "inbox (sockets (snd (on_message small_host 0 hello_payload
     (snd (on_message small_host 0 ''{not json'' small_running)))) 0) =
     [failed_to_process, chat_started, chat_opened]"
    by (simp add: small_running_eq small_sockets_def open_socket_def small_host_def
      small_parse_def hello_payload_def empty_chat_payload_def clear_payload_def
      other_payload_def on_message_def on_message_try_def send_def console_log_def Let_def
      run_command_def)
  from decode_failure_reply [OF p small_socket_0(1,2)] show ?thesis
    using p u small_socket_0 by (simp add: small_running_eq)
qed

section \<open>Starting and stopping\<close>

text \<open>
  C4, as stated, fails for a call made while an earlier \<open>start()\<close> still waits for
  its \<open>listen\<close> callback: \<open>isActive\<close> is still false then, so the second call does
  not return at once; it creates a second server and asks it to listen on the same
  port.
\<close>

theorem start_while_starting_counterexample:
  "fst (start_call small_host (new_service small_sockets)) = Pending \<and>
   isRunning (snd (start_call small_host (new_service small_sockets))) = False \<and>
   listens (snd (start_call small_host (new_service small_sockets))) = [(0, 3001)] \<and>
   fst (start_call small_host (snd (start_call small_host (new_service small_sockets)))) = Pending \<and>
   listens (snd (start_call small_host (snd (start_call small_host (new_service small_sockets)))))
     = [(0, 3001), (1, 3001)]"
  by (simp add: small_host_def new_service_def start_call_def isRunning_def)

text \<open>
  C4, amended. A call of \<open>start()\<close> made while the server is running (\<open>isActive\<close>
  holds) returns at once, fulfilled, and leaves the state as it was: no server is
  created and no \<open>listen\<close> is issued, however often it is called. A call made while
  \<open>isActive\<close> does not hold, which includes the time an earlier call waits for its
  \<open>listen\<close> callback, creates a server and issues a \<open>listen\<close> on the port (when the
  constructors do not raise).
\<close>

theorem start_while_running:
  "(isActive \<sigma> \<longrightarrow>
      start_call h \<sigma> = (Resolved, \<sigma>) \<and> start h b \<sigma> = (Resolved, \<sigma>) \<and>
      run h (replicate n Start) \<sigma> = \<sigma>) \<and>
   (\<not> isActive \<sigma> \<and> createServer_raises h = None \<and> WebSocketServer_raises h = None \<longrightarrow>
      fst (start_call h \<sigma>) = Pending \<and>
      isActive (snd (start_call h \<sigma>)) = False \<and>
      listens (snd (start_call h \<sigma>)) = listens \<sigma> @ [(servers \<sigma>, port \<sigma>)])"
proof -
  have "run h (replicate n Start) \<sigma> = \<sigma>" if "isActive \<sigma>"
    using that by (induction n) (simp_all add: start_call_def)
  then show ?thesis
    by (simp add: start_def start_call_def Let_def)
qed

theorem start_while_running_witness:
  "isActive small_running \<and>
   start_call small_host small_running = (Resolved, small_running) \<and>
   start small_host Bound small_running = (Resolved, small_running) \<and>
   run small_host [Start, Start, Start] small_running = small_running \<and>
   listens small_running = [(0, 3001)] \<and>
   \<not> isActive (new_service small_sockets) \<and>
   createServer_raises small_host = None \<and> WebSocketServer_raises small_host = None \<and>
   fst (start_call small_host (new_service small_sockets)) = Pending \<and>
   listens (snd (start_call small_host (new_service small_sockets))) = [(0, 3001)]"
proof -
  have a: "isActive small_running" by (simp add: small_running_eq)
  have r: "replicate 3 Start = [Start, Start, Start]" by (simp add: numeral_3_eq_3)
  have n: "\<not> isActive (new_service small_sockets)"
    and c: "createServer_raises small_host = None" "WebSocketServer_raises small_host = None"
    by (simp_all add: new_service_def small_host_def)
  from start_while_running [of small_running small_host Bound 3]
    start_while_running [of "new_service small_sockets" small_host Bound 0]
  show ?thesis
    using a r n c by (simp add: small_running_eq new_service_def)
qed

text \<open>
  C5, as stated, fails for a call made while an earlier \<open>stop()\<close> still waits for
  its callbacks: \<open>isActive\<close> is still true then, so the second call does not return
  at once; it asks the socket server to close again, and the registry need not be
  empty.
\<close>

theorem stop_while_stopping_counterexample:
  "isRunning small_running \<and>
   stop_call small_running = (Pending, small_running\<lparr>wss_closes := [0]\<rparr>) \<and>
   fst (stop_call (snd (stop_call small_running))) = Pending \<and>
   wss_closes (snd (stop_call (snd (stop_call small_running)))) = [0, 0] \<and>
   connectedClients (snd (stop_call (snd (stop_call small_running)))) = [0, 1, 2]"
  by (simp add: small_running_eq stop_call_def isRunning_def)

text \<open>
  C5, amended. A call of \<open>stop()\<close> made while the server is stopped (\<open>isActive\<close>
  does not hold) returns at once, fulfilled, and leaves the state as it was, however
  often it is called; an empty registry stays empty. A call made while \<open>isActive\<close>
  holds, which includes the time an earlier call waits for its callbacks, asks the
  socket server to close and waits.
\<close>

theorem stop_while_stopped:
  "(\<not> isActive \<sigma> \<longrightarrow>
      stop_call \<sigma> = (Resolved, \<sigma>) \<and> stop wcb scb \<sigma> = (Resolved, \<sigma>) \<and>
      run h (replicate n Stop) \<sigma> = \<sigma> \<and>
      connectedClients (run h (replicate n Stop) \<sigma>) = connectedClients \<sigma>) \<and>
   (isActive \<sigma> \<and> wss \<sigma> = Some w \<longrightarrow>
      stop_call \<sigma> = (Pending, \<sigma>\<lparr>wss_closes := wss_closes \<sigma> @ [w]\<rparr>))"
proof -
  have "run h (replicate n Stop) \<sigma> = \<sigma>" if "\<not> isActive \<sigma>"
    using that by (induction n) (simp_all add: stop_call_def)
  then show ?thesis
    by (simp add: stop_def stop_call_def)
qed

theorem stop_while_stopped_witness:
  "\<not> isActive (new_service small_sockets) \<and>
   stop_call (new_service small_sockets) = (Resolved, new_service small_sockets) \<and>
   run small_host [Stop, Stop, Stop] (new_service small_sockets) = new_service small_sockets \<and>
   connectedClients (run small_host [Stop, Stop, Stop] (new_service small_sockets)) = [] \<and>
   isActive small_running \<and> wss small_running = Some 0 \<and>
   stop_call small_running = (Pending, small_running\<lparr>wss_closes := [0]\<rparr>)"
proof -
  have a: "\<not> isActive (new_service small_sockets)" by (simp add: new_service_def)
  have r: "replicate 3 Stop = [Stop, Stop, Stop]" by (simp add: numeral_3_eq_3)
  have e: "connectedClients (new_service small_sockets) = []" by (simp add: new_service_def)
  have b: "isActive small_running" "wss small_running = Some 0" "wss_closes small_running = []"
    by (simp_all add: small_running_eq)
  from stop_while_stopped [of "new_service small_sockets" True True small_host 3 0]
    stop_while_stopped [of small_running True True small_host 0 0]
  show ?thesis
    using a r e b by simp
qed

text \<open>
  The order of the listeners decides what a failed \<open>listen\<close> does to the promise:
  had \<open>start\<close> added its listener first, or were it the only one, the promise would
  be rejected.
\<close>

lemma emit_error_order:
  "emit_error [EmitOnWss, RejectStart] e Pending = (Pending, Some e)"
  "emit_error [RejectStart, EmitOnWss] e Pending = (Rejected e, Some e)"
  "emit_error [RejectStart] e Pending = (Rejected e, None)"
  by simp_all

lemma server_error_fields:
  "connectedClients (snd (server_error e p \<sigma>)) = connectedClients \<sigma>"
  "port (snd (server_error e p \<sigma>)) = port \<sigma>"
  "isActive (snd (server_error e p \<sigma>)) = isActive \<sigma>"
  "sockets (snd (server_error e p \<sigma>)) = sockets \<sigma>"
  "listens (snd (server_error e p \<sigma>)) = listens \<sigma>"
  by (simp_all add: server_error_def error_listeners_def)

text \<open>
  C8. \<open>start()\<close> on a stopped server whose \<open>listen\<close> fails with \<open>e\<close>: \<open>isRunning()\<close>
  is false afterwards, but the promise is not rejected. The listener of the socket
  server runs first and raises \<open>e\<close> with nothing to catch it, the listener that would
  reject is not reached, and the promise stays pending.
\<close>

theorem start_bind_failure:
  assumes "\<not> isActive \<sigma>"
    and "createServer_raises h = None" and "WebSocketServer_raises h = None"
  shows "fst (start h (BindFailed e) \<sigma>) = Pending \<and>
    uncaught (snd (start h (BindFailed e) \<sigma>)) = uncaught \<sigma> @ [e] \<and>
    isRunning (snd (start h (BindFailed e) \<sigma>)) = False \<and>
    listens (snd (start h (BindFailed e) \<sigma>)) = listens \<sigma> @ [(servers \<sigma>, port \<sigma>)]"
  using assms
  by (simp add: start_def start_call_def isRunning_def Let_def server_error_def
      error_listeners_def)

theorem start_bind_failure_witness:
  "\<not> isActive (new_service small_sockets) \<and>
   createServer_raises small_host = None \<and> WebSocketServer_raises small_host = None \<and>
   fst (start small_host (BindFailed (Failure ''EADDRINUSE'')) (new_service small_sockets)) =
     Pending \<and>
   uncaught (snd (start small_host (BindFailed (Failure ''EADDRINUSE''))
     (new_service small_sockets))) = [Failure ''EADDRINUSE''] \<and>
   isRunning (snd (start small_host (BindFailed (Failure ''EADDRINUSE''))
     (new_service small_sockets))) = False \<and>
   listens (snd (start small_host (BindFailed (Failure ''EADDRINUSE''))
     (new_service small_sockets))) = [(0, 3001)]"
proof -
  have a: "\<not> isActive (new_service small_sockets)" by (simp add: new_service_def)
  have c: "createServer_raises small_host = None" "WebSocketServer_raises small_host = None"
    by (simp_all add: small_host_def)
  from start_bind_failure [OF a c, of "Failure ''EADDRINUSE''"] show ?thesis
    using a c by (simp add: new_service_def)
qed

text \<open>
  The promise of \<open>stop()\<close> is fulfilled by \<open>stop\<close> itself or by one of its two
  callbacks; whichever it is, and whatever happened in between, the registry is empty
  when it returns.
\<close>

lemma resolving_step_clears:
  "stop_call \<sigma> = (Resolved, \<sigma>') \<Longrightarrow> isActive \<sigma> \<Longrightarrow>
     connectedClients \<sigma>' = [] \<and> \<not> isActive \<sigma>'"
  "wss_closed \<sigma> = (Resolved, \<sigma>') \<Longrightarrow> connectedClients \<sigma>' = [] \<and> \<not> isActive \<sigma>'"
  "server_closed \<sigma> = (r, \<sigma>') \<Longrightarrow>
     r = Resolved \<and> connectedClients \<sigma>' = [] \<and> \<not> isActive \<sigma>'"
  by (auto simp: stop_call_def wss_closed_def server_closed_def stopped_def console_log_def
      split: option.splits if_splits)

lemma stop_resolved:
  assumes "stop wcb scb \<sigma> = (Resolved, \<sigma>')" and "isActive \<sigma>"
  shows "connectedClients \<sigma>' = [] \<and> \<not> isActive \<sigma>' \<and> sockets \<sigma>' = sockets \<sigma>"
  using assms
  by (auto simp: stop_def stop_call_def wss_closed_def server_closed_def stopped_def
      console_log_def split: option.splits if_splits)

section \<open>Broadcast\<close>

lemma broadcast_client_eq:
  "broadcast_client m c \<sigma> =
     (if readyState (sockets \<sigma> c) = OPEN then
        (case send_raises (sockets \<sigma> c) of
           None \<Rightarrow> \<sigma>\<lparr>sockets := (sockets \<sigma>)(c := (sockets \<sigma> c)\<lparr>inbox := inbox (sockets \<sigma> c) @ [m]\<rparr>)\<rparr>
         | Some e \<Rightarrow> \<sigma>\<lparr>console := console \<sigma> @ [LogError ''Error sending message to client:'' e],
                       connectedClients := removeAll c (connectedClients \<sigma>)\<rparr>)
      else \<sigma>)"
  by (simp add: broadcast_client_def send_def delete_client_def console_log_def Let_def
      split: option.splits)

lemma broadcast_client_transport:
  "readyState (sockets (broadcast_client m c \<sigma>) w) = readyState (sockets \<sigma> w)"
  "send_raises (sockets (broadcast_client m c \<sigma>) w) = send_raises (sockets \<sigma> w)"
  by (simp_all add: broadcast_client_eq split: option.splits)

lemma broadcast_client_other:
  "w \<noteq> c \<Longrightarrow> sockets (broadcast_client m c \<sigma>) w = sockets \<sigma> w"
  by (simp add: broadcast_client_eq split: option.splits)

lemma broadcast_client_inbox:
  "inbox (sockets (broadcast_client m c \<sigma>) w) =
     inbox (sockets \<sigma> w) @
       (if w = c \<and> readyState (sockets \<sigma> w) = OPEN \<and> send_raises (sockets \<sigma> w) = None
        then [m] else [])"
  by (simp add: broadcast_client_eq split: option.splits)

lemma broadcast_client_clients:
  "connectedClients (broadcast_client m c \<sigma>) =
     filter (\<lambda>w. \<not> (w = c \<and> readyState (sockets \<sigma> w) = OPEN \<and> send_raises (sockets \<sigma> w) \<noteq> None))
       (connectedClients \<sigma>)"
  by (auto simp: broadcast_client_eq removeAll_filter_not_eq split: option.splits
      intro: filter_cong)

lemma broadcast_client_fields:
  "port (broadcast_client m c \<sigma>) = port \<sigma>"
  "isActive (broadcast_client m c \<sigma>) = isActive \<sigma>"
  by (simp_all add: broadcast_client_eq split: option.splits)

lemma broadcast_each_transport:
  "readyState (sockets (broadcast_each m cs \<sigma>) w) = readyState (sockets \<sigma> w) \<and>
   send_raises (sockets (broadcast_each m cs \<sigma>) w) = send_raises (sockets \<sigma> w)"
  by (induction cs arbitrary: \<sigma>) (simp_all add: broadcast_client_transport)

lemma broadcast_each_fields:
  "port (broadcast_each m cs \<sigma>) = port \<sigma> \<and> isActive (broadcast_each m cs \<sigma>) = isActive \<sigma>"
  by (induction cs arbitrary: \<sigma>) (simp_all add: broadcast_client_fields)

lemma broadcast_each_inbox:
  "distinct cs \<Longrightarrow>
   inbox (sockets (broadcast_each m cs \<sigma>) w) =
     inbox (sockets \<sigma> w) @
       (if w \<in> set cs \<and> readyState (sockets \<sigma> w) = OPEN \<and> send_raises (sockets \<sigma> w) = None
        then [m] else [])"
proof (induction cs arbitrary: \<sigma>)
  case Nil
  then show ?case by simp
next
  case (Cons c cs)
  then show ?case
    by (auto simp: broadcast_client_inbox broadcast_client_transport)
qed

lemma broadcast_each_clients:
  "connectedClients (broadcast_each m cs \<sigma>) =
     filter (\<lambda>w. \<not> (w \<in> set cs \<and> readyState (sockets \<sigma> w) = OPEN \<and> send_raises (sockets \<sigma> w) \<noteq> None))
       (connectedClients \<sigma>)"
proof (induction cs arbitrary: \<sigma>)
  case Nil
  then show ?case by simp
next
  case (Cons c cs)
  show ?case
    by (simp add: Cons.IH broadcast_client_clients broadcast_client_transport)
       (rule filter_cong, auto)
qed

lemma broadcast_each_unvisited:
  "w \<notin> set cs \<Longrightarrow> sockets (broadcast_each m cs \<sigma>) w = sockets \<sigma> w"
  by (induction cs arbitrary: \<sigma>) (simp_all add: broadcast_client_other)

text \<open>
  C3, as stated, fails: \<open>broadcast\<close> skips a socket that is not open and leaves it
  in the registry. Of three registered sockets, two open and one closed, the two open
  ones receive the payload and all three are registered afterwards.
\<close>

theorem broadcast_closed_counterexample:
  "connectedClients small_running = [0, 1, 2] \<and>
   readyState (sockets small_running 1) = CLOSED \<and>
   connectedClients (broadcast (JStr ''tick'') small_running) = [0, 1, 2] \<and>
   inbox (sockets (broadcast (JStr ''tick'') small_running) 0) = [JSON_stringify (JStr ''tick'')] \<and>
   inbox (sockets (broadcast (JStr ''tick'') small_running) 1) = [] \<and>
   inbox (sockets (broadcast (JStr ''tick'') small_running) 2) = [JSON_stringify (JStr ''tick'')]"
  by (simp add: small_running_eq small_sockets_def open_socket_def closed_socket_def
      broadcast_def broadcast_client_eq Let_def)

text \<open>
  C3, amended. \<open>broadcast(payload)\<close> serialises the payload once and delivers it,
  once, to exactly the registered sockets that are open and whose \<open>send\<close> does not
  raise; nobody else receives anything. It removes from the registry exactly the open
  sockets whose \<open>send\<close> raises; a socket that is not open is skipped and stays
  registered.
\<close>

theorem broadcast_delivery:
  assumes "distinct (connectedClients \<sigma>)"
  shows "(\<forall>ws. inbox (sockets (broadcast payload \<sigma>) ws) =
            inbox (sockets \<sigma> ws) @
              (if ws \<in> set (connectedClients \<sigma>) \<and> readyState (sockets \<sigma> ws) = OPEN \<and>
                  send_raises (sockets \<sigma> ws) = None
               then [JSON_stringify payload] else [])) \<and>
     connectedClients (broadcast payload \<sigma>) =
       filter (\<lambda>ws. \<not> (readyState (sockets \<sigma> ws) = OPEN \<and> send_raises (sockets \<sigma> ws) \<noteq> None))
         (connectedClients \<sigma>) \<and>
     (\<forall>ws \<in> set (connectedClients \<sigma>).
        readyState (sockets \<sigma> ws) \<noteq> OPEN \<longrightarrow> ws \<in> set (connectedClients (broadcast payload \<sigma>)))"
proof -
  have i: "inbox (sockets (broadcast payload \<sigma>) ws) =
            inbox (sockets \<sigma> ws) @
              (if ws \<in> set (connectedClients \<sigma>) \<and> readyState (sockets \<sigma> ws) = OPEN \<and>
                  send_raises (sockets \<sigma> ws) = None
               then [JSON_stringify payload] else [])" for ws
    using assms by (simp add: broadcast_def Let_def broadcast_each_inbox)
  have c: "connectedClients (broadcast payload \<sigma>) =
       filter (\<lambda>ws. \<not> (readyState (sockets \<sigma> ws) = OPEN \<and> send_raises (sockets \<sigma> ws) \<noteq> None))
         (connectedClients \<sigma>)"
    by (simp add: broadcast_def Let_def broadcast_each_clients) (rule filter_cong, auto)
  show ?thesis using i c by simp
qed

theorem broadcast_delivery_witness:
  "distinct (connectedClients raising_running) \<and>
   connectedClients raising_running = [0, 1, 2] \<and>
   inbox (sockets (broadcast (JStr ''tick'') raising_running) 0) =
     [JSON_stringify (JStr ''tick'')] \<and>
   inbox (sockets (broadcast (JStr ''tick'') raising_running) 1) = [] \<and>
   inbox (sockets (broadcast (JStr ''tick'') raising_running) 2) = [] \<and>
   connectedClients (broadcast (JStr ''tick'') raising_running) = [0, 1]"
proof -
  have e: "connectedClients raising_running = [0, 1, 2]"
    and s: "sockets raising_running 0 = open_socket"
      "sockets raising_running 1 = closed_socket"
      "sockets raising_running 2 = open_socket\<lparr>send_raises := Some (Failure ''EPIPE'')\<rparr>"
    by (simp_all add: raising_running_def small_running_eq small_sockets_def open_socket_def)
  have d: "distinct (connectedClients raising_running)" by (simp add: e)
  from broadcast_delivery [OF d, of "JStr ''tick''"] show ?thesis
    using e s by (simp add: open_socket_def closed_socket_def)
qed

section \<open>Runs\<close>

lemma broadcast_port: "port (broadcast m \<sigma>) = port \<sigma>"
  by (simp add: broadcast_def Let_def broadcast_each_fields)

lemma step_port: "port (step h ev \<sigma>) = port \<sigma>"
proof (cases ev)
  case (Settled i)
  then show ?thesis by (simp only: settled_fields)
qed (simp_all add: start_call_def listening_def stop_call_def wss_closed_def server_closed_def
        stopped_def on_connection_def on_close_def on_error_def add_client_def delete_client_def
        console_log_def broadcast_port begin_fields server_error_fields Let_def
        split: option.splits)

lemma run_port: "port (run h evs \<sigma>) = port \<sigma>"
  by (induction evs arbitrary: \<sigma>) (simp_all add: step_port)

text \<open>
  C9. Whatever events happen, in any order and from any state, \<open>getPort()\<close> returns
  the port the state had before; for a new instance that is 3001.
\<close>

theorem getPort_constant:
  "getPort (run h evs \<sigma>) = getPort \<sigma> \<and> getPort (run h evs (new_service socks)) = 3001"
  by (simp add: getPort_def run_port new_service_def)

theorem getPort_constant_witness:
  "getPort (run small_host [Stop, WssClosed, ServerClosed, Start, Broadcast JNull] small_running)
     = getPort small_running \<and>
   getPort (run small_host [Start, Listening, Connection 0, Message 0 hello_payload, Stop]
     (new_service small_sockets)) = 3001"
  using getPort_constant [of small_host "[Stop, WssClosed, ServerClosed, Start, Broadcast JNull]"
      small_running]
    getPort_constant [of small_host "[Start, Listening, Connection 0, Message 0 hello_payload, Stop]"
      small_running small_sockets]
  by simp

lemma broadcast_clients_subset:
  "set (connectedClients (broadcast m \<sigma>)) \<subseteq> set (connectedClients \<sigma>)"
  by (simp add: broadcast_def Let_def broadcast_each_clients)

lemma broadcast_unregistered:
  "ws \<notin> set (connectedClients \<sigma>) \<Longrightarrow> sockets (broadcast m \<sigma>) ws = sockets \<sigma> ws"
  by (simp add: broadcast_def Let_def broadcast_each_unvisited)

lemma step_unregistered:
  assumes "ws \<notin> set (connectedClients \<sigma>)" and "ev \<noteq> Connection ws"
  shows "ws \<notin> set (connectedClients (step h ev \<sigma>))"
proof (cases ev)
  case (Broadcast m)
  then show ?thesis using assms broadcast_clients_subset [of m \<sigma>] by auto
next
  case (Message w p)
  then show ?thesis using assms by (simp add: begin_fields)
next
  case (Settled i)
  then show ?thesis using assms by (simp only: settled_fields) simp
qed (use assms in \<open>auto simp: start_call_def listening_def stop_call_def wss_closed_def
        server_closed_def stopped_def on_connection_def on_close_def on_error_def
        add_client_def delete_client_def console_log_def server_error_fields Let_def
        split: option.splits\<close>)

lemma run_unregistered:
  assumes "ws \<notin> set (connectedClients \<sigma>)" and "Connection ws \<notin> set evs"
  shows "ws \<notin> set (connectedClients (run h evs \<sigma>))"
  using assms
proof (induction evs arbitrary: \<sigma>)
  case Nil
  then show ?case by simp
next
  case (Cons ev evs)
  have "ws \<notin> set (connectedClients (step h ev \<sigma>))"
    using Cons.prems by (intro step_unregistered) auto
  then show ?case using Cons.prems by (simp add: Cons.IH)
qed

text \<open>The registry never holds a socket twice.\<close>

lemma step_distinct:
  assumes "distinct (connectedClients \<sigma>)"
  shows "distinct (connectedClients (step h ev \<sigma>))"
proof (cases ev)
  case (Broadcast m)
  then show ?thesis using assms by (simp add: broadcast_def Let_def broadcast_each_clients)
next
  case (Message w p)
  then show ?thesis using assms by (simp add: begin_fields)
next
  case (Settled i)
  then show ?thesis using assms by (simp only: settled_fields)
qed (use assms in \<open>auto simp: start_call_def listening_def stop_call_def wss_closed_def
        server_closed_def stopped_def on_connection_def on_close_def on_error_def
        add_client_def delete_client_def console_log_def server_error_fields Let_def
        distinct_removeAll split: option.splits\<close>)

lemma run_distinct:
  "distinct (connectedClients \<sigma>) \<Longrightarrow> distinct (connectedClients (run h evs \<sigma>))"
  by (induction evs arbitrary: \<sigma>) (simp_all add: step_distinct)

lemma registry_distinct: "distinct (connectedClients (run h evs (new_service socks)))"
  by (rule run_distinct) (simp add: new_service_def)

text \<open>The service in the middle of a \<open>stop()\<close>, computed.\<close>

lemma small_stopping_eq:
  "small_stopping =
     \<lparr>server = Some 0, wss = Some 0, port = 3001, isActive = True,
      connectedClients = [0, 1, 2, 3],
      sockets = small_sockets(0 := open_socket\<lparr>inbox := [chat_started]\<rparr>),
      console = [LogPort ''WebSocket server started on port'' 3001,
                 Log ''WebSocket client connected'', Log ''WebSocket client connected'',
                 Log ''WebSocket client connected'', Log ''WebSocket client connected''],
      executed = [], servers = 1, listens = [(0, 3001)],
      wss_closes = [0], server_closes = [0],
      awaiting = [AwaitImport 0 ''workbench.action.chat.open''
                    [JObj [(''query'', JStr ''hello'')]] chat_opened],
      uncaught = []\<rparr>"
  by (simp add: small_stopping_def small_running_eq small_host_def small_parse_def
      stop_call_def wss_closed_def on_message_begin_def send_def suspend_def Let_def
      small_sockets_def open_socket_def on_connection_def add_client_def console_log_def)

text \<open>
  C7. \<open>\<sigma>'\<close> is the state in which the promise of \<open>stop()\<close> has just been fulfilled:
  by \<open>stop\<close> with both callbacks answered at once, or, with any events in between, by
  the step that fulfils it, which is \<open>stop\<close> itself or one of its two callbacks, in
  whatever state \<open>\<sigma>\<close> that step runs. Then the registry is empty and the server is not
  running; a \<open>broadcast\<close> reaches nobody; and after every later run of events,
  messages of the socket and resumed handlers included, a socket that has not been
  accepted again is not registered and a \<open>broadcast\<close> leaves it as it is. A socket is
  accepted once, so no later \<open>broadcast\<close> reaches a socket that was open before the
  stop.
\<close>

theorem stop_empties_registry:
  assumes "isActive \<sigma> \<and> stop wcb scb \<sigma> = (Resolved, \<sigma>') \<or>
      isActive \<sigma> \<and> stop_call \<sigma> = (Resolved, \<sigma>') \<or>
      wss_closed \<sigma> = (Resolved, \<sigma>') \<or>
      server_closed \<sigma> = (Resolved, \<sigma>')"
  shows "connectedClients \<sigma>' = [] \<and> isRunning \<sigma>' = False \<and>
     (\<forall>payload. sockets (broadcast payload \<sigma>') = sockets \<sigma>' \<and>
        connectedClients (broadcast payload \<sigma>') = []) \<and>
     (\<forall>evs ws payload. Connection ws \<notin> set evs \<longrightarrow>
        ws \<notin> set (connectedClients (run h evs \<sigma>')) \<and>
        sockets (broadcast payload (run h evs \<sigma>')) ws = sockets (run h evs \<sigma>') ws)"
proof -
  have s: "connectedClients \<sigma>' = [] \<and> \<not> isActive \<sigma>'"
    using assms by (auto dest: stop_resolved resolving_step_clears)
  have b: "sockets (broadcast payload \<sigma>') = sockets \<sigma>' \<and>
      connectedClients (broadcast payload \<sigma>') = []" for payload
    using s by (simp add: broadcast_def)
  have r: "ws \<notin> set (connectedClients (run h evs \<sigma>')) \<and>
        sockets (broadcast payload (run h evs \<sigma>')) ws = sockets (run h evs \<sigma>') ws"
    if "Connection ws \<notin> set evs" for evs ws payload
  proof -
    have "ws \<notin> set (connectedClients (run h evs \<sigma>'))"
      using s that by (intro run_unregistered) simp_all
    then show ?thesis by (simp add: broadcast_unregistered)
  qed
  show ?thesis using s b r by (simp add: isRunning_def)
qed

theorem stop_empties_registry_witness:
  "fst (server_closed small_stopping) = Resolved \<and>
   connectedClients small_stopping = [0, 1, 2, 3] \<and>
   connectedClients (snd (server_closed small_stopping)) = [] \<and>
   isRunning (snd (server_closed small_stopping)) = False \<and>
   sockets (broadcast (JStr ''tick'') (snd (server_closed small_stopping))) =
     sockets small_stopping \<and>
   0 \<notin> set (connectedClients (run small_host
     [Settled 0, Settled 0, Message 0 hello_payload, Connection 4]
     (snd (server_closed small_stopping)))) \<and>
   inbox (sockets (run small_host
     [Settled 0, Settled 0, Message 0 hello_payload, Connection 4]
     (snd (server_closed small_stopping))) 0) = [chat_started, chat_opened, chat_started] \<and>
   sockets (broadcast (JStr ''tick'') (run small_host
     [Settled 0, Settled 0, Message 0 hello_payload, Connection 4]
     (snd (server_closed small_stopping)))) 0 =
   sockets (run small_host
     [Settled 0, Settled 0, Message 0 hello_payload, Connection 4]
     (snd (server_closed small_stopping))) 0 \<and>
   inbox (sockets (broadcast (JStr ''tick'') (run small_host
     [Settled 0, Settled 0, Message 0 hello_payload, Connection 4]
     (snd (server_closed small_stopping)))) 4) = [JSON_stringify (JStr ''tick'')]"
proof -
  let ?s = "snd (server_closed small_stopping)"
  let ?evs = "[Settled 0, Settled 0, Message 0 hello_payload, Connection 4]"
  have f: "fst (server_closed small_stopping) = Resolved"
    by (simp add: server_closed_def)
  then have r: "server_closed small_stopping = (Resolved, ?s)"
    by (metis prod.collapse)
  have c: "connectedClients small_stopping = [0, 1, 2, 3]"
    by (simp add: small_stopping_eq)
  have k: "sockets ?s = sockets small_stopping"
    by (simp add: server_closed_def stopped_def console_log_def)
  have e: "run small_host ?evs ?s =
     \<lparr>server = Some 0, wss = Some 0, port = 3001, isActive = False,
      connectedClients = [4],
      sockets = small_sockets
        (0 := open_socket\<lparr>inbox := [chat_started, chat_opened, chat_started]\<rparr>),
      console = [LogPort ''WebSocket server started on port'' 3001,
                 Log ''WebSocket client connected'', Log ''WebSocket client connected'',
                 Log ''WebSocket client connected'', Log ''WebSocket client connected'',
                 Log ''WebSocket server stopped'', Log ''WebSocket client connected''],
      executed = [(''workbench.action.chat.open'', [JObj [(''query'', JStr ''hello'')]])],
      servers = 1, listens = [(0, 3001)],
      wss_closes = [0], server_closes = [0],
      awaiting = [AwaitImport 0 ''workbench.action.chat.open''
                    [JObj [(''query'', JStr ''hello'')]] chat_opened],
      uncaught = []\<rparr>"
    by (simp add: small_stopping_eq server_closed_def stopped_def console_log_def
        small_host_def small_parse_def on_message_begin_def send_def suspend_def Let_def
        small_sockets_def open_socket_def on_connection_def add_client_def)
  have i: "inbox (sockets (run small_host ?evs ?s) 0) =
      [chat_started, chat_opened, chat_started]"
    unfolding e by (simp add: open_socket_def)
  have n: "inbox (sockets (broadcast (JStr ''tick'') (run small_host ?evs ?s)) 4) =
      [JSON_stringify (JStr ''tick'')]"
    unfolding e
    by (simp add: broadcast_def Let_def broadcast_client_eq small_sockets_def open_socket_def)
  have d: "server_closed small_stopping = (Resolved, ?s) \<Longrightarrow>
      isActive small_stopping \<and> stop True True small_stopping = (Resolved, ?s) \<or>
      isActive small_stopping \<and> stop_call small_stopping = (Resolved, ?s) \<or>
      wss_closed small_stopping = (Resolved, ?s) \<or>
      server_closed small_stopping = (Resolved, ?s)"
    by simp
  note t = stop_empties_registry [OF d [OF r], of small_host]
  have t1: "connectedClients ?s = []" and t2: "isRunning ?s = False"
    and t3: "sockets (broadcast (JStr ''tick'') ?s) = sockets ?s"
    using t by blast+
  have "Connection 0 \<notin> set ?evs" by simp
  with t have t4: "0 \<notin> set (connectedClients (run small_host ?evs ?s)) \<and>
      sockets (broadcast (JStr ''tick'') (run small_host ?evs ?s)) 0 =
      sockets (run small_host ?evs ?s) 0"
    by blast
  have t3': "sockets (broadcast (JStr ''tick'') ?s) = sockets small_stopping"
    using t3 k by simp
  show ?thesis
    using f c i n t1 t2 t3' t4 by blast
qed

end
